theory Spec2Isabelle
  imports Complex_Main
begin

section \<open>The stock portfolio tracker of StockTracker.py\<close>

text \<open>
  The class \<open>StockPortfolioTracker\<close> keeps a portfolio (a dictionary with the keys
  \<open>stocks\<close>, \<open>transactions\<close> and \<open>cash\<close>) in memory and rewrites the file
  \<open>portfolio.json\<close> after every operation that went through.

  Numbers are Python numbers used with \<open>+\<close>, \<open>-\<close>, \<open>*\<close>, \<open>/\<close> and the comparisons only.
  They are modelled as exact rationals; the one place where Python's arithmetic is partial,
  the division by zero that raises \<open>ZeroDivisionError\<close>, is a branch of its own.
\<close>

subsection \<open>Data\<close>

text \<open>An entry of \<open>portfolio["stocks"]\<close>.\<close>

record position =
  symbol :: string
  shares :: rat
  avg_price :: rat
  purchase_date :: string

text \<open>
  An entry of \<open>portfolio["transactions"]\<close>: the dictionary's \<open>type\<close> key selects the
  constructor. \<open>CashDeposit amount date\<close>, \<open>CashWithdrawal amount date\<close>,
  \<open>BuyTx symbol shares price total date\<close>, \<open>SellTx symbol shares price total date\<close>.
\<close>

datatype transaction =
    CashDeposit rat string
  | CashWithdrawal rat string
  | BuyTx string rat rat rat string
  | SellTx string rat rat rat string

record portfolio =
  stocks :: "position list"
  transactions :: "transaction list"
  cash :: rat

text \<open>
  The tracker object with the part of the world it writes to: \<open>disk\<close> maps a file name to
  the JSON document stored under it (a file that does not exist is \<open>None\<close>). The document is
  kept as the portfolio it encodes: \<open>json.dump\<close> and \<open>json.load\<close> are the library's.
\<close>

record tracker =
  portfolio_file :: string
  portfolio :: portfolio
  disk :: "string \<rightharpoonup> portfolio"

text \<open>
  What one call reads from outside: the answer of \<open>get_stock_price\<close> for a symbol
  (\<open>None\<close>, a quote, or the random replacement price after a failed request), and the two
  renderings of \<open>datetime.datetime.now()\<close>.
\<close>

record env =
  get_stock_price :: "string \<Rightarrow> rat option"
  date_today :: string
  date_time :: string

text \<open>
  How a call ends. \<open>Ok\<close> is \<open>return True\<close>; \<open>Rejected r\<close> is one of the early
  \<open>return False\<close>, told apart by the message printed before it; \<open>Raised e\<close> is an
  exception leaving the method.
\<close>

datatype failure = InsufficientFunds | NotFound | InsufficientShares | PriceUnavailable

datatype py_error = ZeroDivisionError | TypeError

datatype result = Ok | Rejected failure | Raised py_error

subsection \<open>Loading and saving\<close>

definition empty_portfolio :: portfolio where
  "empty_portfolio = \<lparr>stocks = [], transactions = [], cash = 0\<rparr>"

definition load_portfolio :: "tracker \<Rightarrow> portfolio" where
  "load_portfolio t =
     (case disk t (portfolio_file t) of
        Some d \<Rightarrow> d
      | None \<Rightarrow> empty_portfolio)"

definition save_portfolio :: "tracker \<Rightarrow> tracker" where
  "save_portfolio t = t\<lparr>disk := (disk t)(portfolio_file t \<mapsto> portfolio t)\<rparr>"

text \<open>The constructor: the file name is fixed and the portfolio is loaded from it.\<close>

definition init :: "(string \<rightharpoonup> portfolio) \<Rightarrow> tracker" where
  "init d =
     (let t0 = \<lparr>portfolio_file = ''portfolio.json'', portfolio = empty_portfolio, disk = d\<rparr>
      in t0\<lparr>portfolio := load_portfolio t0\<rparr>)"

subsection \<open>Cash\<close>

definition add_transaction :: "transaction \<Rightarrow> portfolio \<Rightarrow> portfolio" where
  "add_transaction tx p = p\<lparr>transactions := transactions p @ [tx]\<rparr>"

definition add_cash :: "env \<Rightarrow> rat \<Rightarrow> tracker \<Rightarrow> tracker" where
  "add_cash e amount t =
     (let p = portfolio t;
          p1 = p\<lparr>cash := cash p + amount\<rparr>;
          p2 = add_transaction (CashDeposit amount (date_time e)) p1
      in save_portfolio (t\<lparr>portfolio := p2\<rparr>))"

definition withdraw_cash :: "env \<Rightarrow> rat \<Rightarrow> tracker \<Rightarrow> result \<times> tracker" where
  "withdraw_cash e amount t =
     (let p = portfolio t in
      if amount > cash p then (Rejected InsufficientFunds, t)
      else
        let p1 = p\<lparr>cash := cash p - amount\<rparr>;
            p2 = add_transaction (CashWithdrawal amount (date_time e)) p1
        in (Ok, save_portfolio (t\<lparr>portfolio := p2\<rparr>)))"

subsection \<open>Buying and selling\<close>

text \<open>The loops that look for the symbol: the index of the first position that has it.\<close>

fun find_stock :: "string \<Rightarrow> position list \<Rightarrow> nat option" where
  "find_stock ticker [] = None"
| "find_stock ticker (q # qs) =
     (if symbol q = ticker then Some 0 else map_option Suc (find_stock ticker qs))"

text \<open>\<open>price=None\<close> asks the price source; a price that is passed is used as it is.\<close>

definition resolve_price :: "env \<Rightarrow> string \<Rightarrow> rat option \<Rightarrow> rat option" where
  "resolve_price e ticker price =
     (case price of
        None \<Rightarrow> get_stock_price e ticker
      | Some pr \<Rightarrow> Some pr)"

text \<open>\<open>list.pop(i)\<close> for an index inside the list.\<close>

definition pop :: "nat \<Rightarrow> 'a list \<Rightarrow> 'a list" where
  "pop i xs = take i xs @ drop (Suc i) xs"

definition buy_stock :: "env \<Rightarrow> string \<Rightarrow> rat \<Rightarrow> rat option \<Rightarrow> tracker \<Rightarrow> result \<times> tracker" where
  "buy_stock e ticker n price_arg t =
     (case resolve_price e ticker price_arg of
        None \<Rightarrow> (Rejected PriceUnavailable, t)
      | Some price \<Rightarrow>
          let p = portfolio t;
              total_cost = price * n
          in
          if total_cost > cash p then (Rejected InsufficientFunds, t)
          else
            let p1 = p\<lparr>cash := cash p - total_cost\<rparr> in
            (case find_stock ticker (stocks p1) of
               Some i \<Rightarrow>
                 let existing_stock = stocks p1 ! i;
                     total_shares = shares existing_stock + n;
                     total_cost2 = shares existing_stock * avg_price existing_stock + n * price
                 in
                 if total_shares = 0 then (Raised ZeroDivisionError, t\<lparr>portfolio := p1\<rparr>)
                 else
                   let updated = existing_stock\<lparr>avg_price := total_cost2 / total_shares,
                                                shares := total_shares\<rparr>;
                       p2 = p1\<lparr>stocks := (stocks p1)[i := updated]\<rparr>;
                       p3 = add_transaction (BuyTx ticker n price total_cost2 (date_time e)) p2
                   in (Ok, save_portfolio (t\<lparr>portfolio := p3\<rparr>))
             | None \<Rightarrow>
                 let new_stock = \<lparr>symbol = ticker, shares = n, avg_price = price,
                                  purchase_date = date_today e\<rparr>;
                     p2 = p1\<lparr>stocks := stocks p1 @ [new_stock]\<rparr>;
                     p3 = add_transaction (BuyTx ticker n price total_cost (date_time e)) p2
                 in (Ok, save_portfolio (t\<lparr>portfolio := p3\<rparr>))))"

definition sell_stock :: "env \<Rightarrow> string \<Rightarrow> rat \<Rightarrow> rat option \<Rightarrow> tracker \<Rightarrow> result \<times> tracker" where
  "sell_stock e ticker n price_arg t =
     (let p = portfolio t in
      case find_stock ticker (stocks p) of
        None \<Rightarrow> (Rejected NotFound, t)
      | Some stock_index \<Rightarrow>
          let stock = stocks p ! stock_index in
          if n > shares stock then (Rejected InsufficientShares, t)
          else
            (case resolve_price e ticker price_arg of
               None \<Rightarrow> (Rejected PriceUnavailable, t)
             | Some price \<Rightarrow>
                 let total_proceeds = price * n;
                     p1 = p\<lparr>cash := cash p + total_proceeds\<rparr>;
                     p2 = (if n = shares stock
                           then p1\<lparr>stocks := pop stock_index (stocks p1)\<rparr>
                           else p1\<lparr>stocks := (stocks p1)[stock_index :=
                                                 stock\<lparr>shares := shares stock - n\<rparr>]\<rparr>);
                     p3 = add_transaction (SellTx ticker n price total_proceeds (date_time e)) p2
                 in (Ok, save_portfolio (t\<lparr>portfolio := p3\<rparr>))))"

subsection \<open>The report\<close>

text \<open>
  A row of the holdings table, before it is formatted: symbol, shares, average price,
  current price, cost basis, current value, gain or loss, and gain or loss in percent.
\<close>

record report_row =
  row_symbol :: string
  row_shares :: rat
  row_avg_price :: rat
  row_current_price :: rat
  row_cost_basis :: rat
  row_current_value :: rat
  row_gain_loss :: rat
  row_gain_loss_pct :: rat

record report =
  portfolio_data :: "report_row list"
  total_value :: rat
  cash_balance :: rat
  total_with_cash :: rat
  total_cost_basis :: rat
  total_gain_loss :: rat
  total_gain_loss_pct :: rat

text \<open>
  The loop over the positions, with its three accumulators. A price source that answers
  \<open>None\<close> makes \<open>shares * current_price\<close> raise \<open>TypeError\<close>; a cost basis of zero makes
  \<open>gain_loss / cost_basis\<close> raise \<open>ZeroDivisionError\<close>.
\<close>

fun valuation_loop ::
  "env \<Rightarrow> position list \<Rightarrow> report_row list \<Rightarrow> rat \<Rightarrow> rat \<Rightarrow> py_error + (report_row list \<times> rat \<times> rat)"
where
  "valuation_loop e [] rows tv tc = Inr (rows, tv, tc)"
| "valuation_loop e (stock # rest) rows tv tc =
     (let cost_basis = shares stock * avg_price stock in
      case get_stock_price e (symbol stock) of
        None \<Rightarrow> Inl TypeError
      | Some current_price \<Rightarrow>
          let current_value = shares stock * current_price;
              gain_loss = current_value - cost_basis
          in
          if cost_basis = 0 then Inl ZeroDivisionError
          else
            let gain_loss_pct = (gain_loss / cost_basis) * 100;
                row = \<lparr>row_symbol = symbol stock, row_shares = shares stock,
                       row_avg_price = avg_price stock, row_current_price = current_price,
                       row_cost_basis = cost_basis, row_current_value = current_value,
                       row_gain_loss = gain_loss, row_gain_loss_pct = gain_loss_pct\<rparr>
            in valuation_loop e rest (rows @ [row]) (tv + current_value) (tc + cost_basis))"

text \<open>\<open>show_portfolio\<close>: \<open>Inr None\<close> is the early return on an empty portfolio.\<close>

definition show_portfolio :: "env \<Rightarrow> tracker \<Rightarrow> py_error + report option" where
  "show_portfolio e t =
     (let p = portfolio t in
      if stocks p = [] then Inr None
      else
        case valuation_loop e (stocks p) [] 0 0 of
          Inl err \<Rightarrow> Inl err
        | Inr (rows, tv, tc) \<Rightarrow>
            let twc = tv + cash p;
                tgl = tv - tc;
                tglp = (if tc > 0 then (tgl / tc) * 100 else 0)
            in Inr (Some \<lparr>portfolio_data = rows, total_value = tv, cash_balance = cash p,
                           total_with_cash = twc, total_cost_basis = tc,
                           total_gain_loss = tgl, total_gain_loss_pct = tglp\<rparr>))"

subsection \<open>Sequences of operations\<close>

datatype operation =
    Deposit rat
  | Withdraw rat
  | Buy string rat "rat option"
  | Sell string rat "rat option"

text \<open>One operation on the tracker; the state is the one the call leaves, however it ends.\<close>

fun apply_operation :: "env \<Rightarrow> operation \<Rightarrow> tracker \<Rightarrow> tracker" where
  "apply_operation e (Deposit a) t = add_cash e a t"
| "apply_operation e (Withdraw a) t = snd (withdraw_cash e a t)"
| "apply_operation e (Buy ticker n pr) t = snd (buy_stock e ticker n pr t)"
| "apply_operation e (Sell ticker n pr) t = snd (sell_stock e ticker n pr t)"

fun run :: "(env \<times> operation) list \<Rightarrow> tracker \<Rightarrow> tracker" where
  "run [] t = t"
| "run ((e, x) # rest) t = run rest (apply_operation e x t)"

subsection \<open>Sign conditions and sample inputs\<close>


text \<open>A price source that knows one symbol, and a tracker holding two positions.\<close>

definition example_env :: env where
  "example_env =
     \<lparr>get_stock_price = (\<lambda>s. if s = ''AAPL'' then Some 150 else None),
      date_today = ''2024-03-01'', date_time = ''2024-03-01 10:00:00''\<rparr>"


section \<open>Properties\<close>

subsection \<open>The search for a symbol\<close>

lemma find_stock_Some:
  "find_stock s xs = Some i \<Longrightarrow> i < length xs \<and> symbol (xs ! i) = s"
  by (induction xs arbitrary: i) (auto split: if_splits)

lemma find_stock_None_iff:
  "find_stock s xs = None \<longleftrightarrow> s \<notin> symbol ` set xs"
  by (induction xs) auto


lemma others_update:
  "find_stock s xs = Some i \<Longrightarrow> symbol y = s \<Longrightarrow>
   filter (\<lambda>q. symbol q \<noteq> s) (xs[i := y]) = filter (\<lambda>q. symbol q \<noteq> s) xs"
  by (induction xs arbitrary: i) (auto split: if_splits)

lemma others_pop:
  "find_stock s xs = Some i \<Longrightarrow>
   filter (\<lambda>q. symbol q \<noteq> s) (pop i xs) = filter (\<lambda>q. symbol q \<noteq> s) xs"
  by (induction xs arbitrary: i) (auto simp: pop_def split: if_splits)



subsection \<open>Symbols stay unique\<close>

text \<open>
  A portfolio whose positions have pairwise different symbols keeps that property under
  every operation, so a tracker started without a file never holds two positions in one
  symbol. Then "the position in S" is the only element of the list that has the symbol.
\<close>

lemma distinct_symbols_update:
  assumes "distinct (map symbol xs)" and "i < length xs" and "symbol y = symbol (xs ! i)"
  shows "distinct (map symbol (xs[i := y]))"
proof -
  have "map symbol (xs[i := y]) = (map symbol xs)[i := map symbol xs ! i]"
    using assms(2,3) by (simp add: map_update)
  also have "\<dots> = map symbol xs"
    by (rule list_update_id)
  finally show ?thesis
    using assms(1) by simp
qed

lemma distinct_symbols_pop:
  "distinct (map symbol xs) \<Longrightarrow> distinct (map symbol (pop i xs))"
proof -
  assume d: "distinct (map symbol xs)"
  have "map symbol xs = map symbol (take i xs) @ map symbol (drop i xs)"
    by (simp flip: map_append)
  with d have 1: "distinct (map symbol (take i xs))" and 2: "distinct (map symbol (drop i xs))"
    and 3: "set (map symbol (take i xs)) \<inter> set (map symbol (drop i xs)) = {}"
    by (metis distinct_append)+
  have sub: "set (drop (Suc i) xs) \<subseteq> set (drop i xs)"
    by (simp add: set_drop_subset_set_drop)
  have 4: "distinct (map symbol (drop (Suc i) xs))"
    using d by (simp add: distinct_drop flip: drop_map)
  from 1 3 4 sub show ?thesis
    unfolding pop_def by (auto simp: image_iff)
qed

lemma distinct_symbols_step:
  "distinct (map symbol (stocks (portfolio t)))
   \<Longrightarrow> distinct (map symbol (stocks (portfolio (apply_operation e x t))))"
  by (cases x)
     (auto simp: withdraw_cash_def buy_stock_def add_cash_def sell_stock_def Let_def
        save_portfolio_def add_transaction_def find_stock_None_iff
        distinct_symbols_pop distinct_symbols_update find_stock_Some
        split: option.splits if_splits)

lemma distinct_symbols_run:
  "distinct (map symbol (stocks (portfolio t)))
   \<Longrightarrow> distinct (map symbol (stocks (portfolio (run ops t))))"
  by (induction ops arbitrary: t) (auto simp: distinct_symbols_step)

lemma distinct_symbols_fresh:
  "distinct (map symbol (stocks (portfolio (run ops (init Map.empty)))))"
  by (rule distinct_symbols_run) (simp add: init_def load_portfolio_def empty_portfolio_def)

lemma distinct_symbols_filter:
  "distinct (map symbol xs) \<Longrightarrow> pos \<in> set xs \<Longrightarrow> filter (\<lambda>q. symbol q = symbol pos) xs = [pos]"
  by (induction xs) (auto simp: filter_empty_conv image_iff)

subsection \<open>Buying into a position that is held\<close>



subsection \<open>Selling\<close>



subsection \<open>The cash check\<close>



subsection \<open>Non-positive quantities\<close>




subsection \<open>Cash never below zero\<close>





subsection \<open>Cash arithmetic\<close>



subsection \<open>The total recorded for a purchase\<close>



subsection \<open>The percentage of a position\<close>

text \<open>
  Where the loop of the report meets a position whose cost basis is zero, and the prices
  of the positions up to it were found, it stops on the division: no report is produced.
\<close>

lemma valuation_loop_zero_cost:
  "q \<in> set xs \<Longrightarrow> shares q * avg_price q = 0 \<Longrightarrow> \<exists>err. valuation_loop e xs rows tv tc = Inl err"
  by (induction xs arbitrary: rows tv tc) (auto simp: Let_def split: option.splits)

lemma show_portfolio_zero_cost:
  "q \<in> set (stocks (portfolio t)) \<Longrightarrow> shares q * avg_price q = 0
   \<Longrightarrow> \<exists>err. show_portfolio e t = Inl err"
  using valuation_loop_zero_cost [of q "stocks (portfolio t)" e "[]" 0 0]
  by (auto simp: show_portfolio_def Let_def)

lemma show_portfolio_first_zero_cost:
  "stocks (portfolio t) = q # qs \<Longrightarrow> shares q * avg_price q = 0
   \<Longrightarrow> get_stock_price e (symbol q) = Some cp
   \<Longrightarrow> show_portfolio e t = Inl ZeroDivisionError"
  by (simp add: show_portfolio_def Let_def)

text \<open>
  Claim C8 says that the percentage of a position is guarded against a cost basis of zero.
  The code guards the percentage of the whole portfolio only. On a fresh tracker,
  \<open>buy_stock("TSLA", 1, price=0)\<close> succeeds and leaves a position with the average price 0;
  \<open>show_portfolio\<close>, with a price source that answers 10, then raises
  \<open>ZeroDivisionError\<close> at \<open>gain_loss / cost_basis\<close>.
\<close>

theorem show_portfolio_divides_by_zero:
  "fst (buy_stock example_env ''TSLA'' 1 (Some 0) (init Map.empty)) = Ok
   \<and> stocks (portfolio (snd (buy_stock example_env ''TSLA'' 1 (Some 0) (init Map.empty))))
       = [\<lparr>symbol = ''TSLA'', shares = 1, avg_price = 0, purchase_date = ''2024-03-01''\<rparr>]
   \<and> show_portfolio (example_env\<lparr>get_stock_price := (\<lambda>s. Some 10)\<rparr>)
        (snd (buy_stock example_env ''TSLA'' 1 (Some 0) (init Map.empty)))
       = Inl ZeroDivisionError"
  by (simp add: init_def load_portfolio_def empty_portfolio_def example_env_def
        buy_stock_def resolve_price_def show_portfolio_def Let_def save_portfolio_def
        add_transaction_def)

text \<open>
  The same from the menu, which passes no price: buying 0 shares of a quoted symbol costs
  nothing, is accepted, and leaves a position of 0 shares, whose cost basis is zero.
\<close>

lemma show_portfolio_zero_shares:
  "fst (buy_stock example_env ''AAPL'' 0 None (init Map.empty)) = Ok
   \<and> show_portfolio example_env (snd (buy_stock example_env ''AAPL'' 0 None (init Map.empty)))
       = Inl ZeroDivisionError"
  by (simp add: init_def load_portfolio_def empty_portfolio_def example_env_def
        buy_stock_def resolve_price_def show_portfolio_def Let_def save_portfolio_def
        add_transaction_def)

subsection \<open>Saving and loading\<close>


text \<open>A new tracker started on the files left by a save has the saved portfolio.\<close>

lemma restart_after_save:
  "portfolio_file t = ''portfolio.json'' \<Longrightarrow> portfolio (init (disk (save_portfolio t))) = portfolio t"
  by (simp add: init_def load_portfolio_def save_portfolio_def)

lemma load_without_file:
  "disk t (portfolio_file t) = None \<Longrightarrow> load_portfolio t = empty_portfolio"
  by (simp add: load_portfolio_def)

subsection \<open>Other positions\<close>

text \<open>
  Claim C10. Whatever a call of \<open>buy_stock\<close> or \<open>sell_stock\<close> on the symbol \<open>S\<close> does and
  however it ends, the positions whose symbol is not \<open>S\<close> are afterwards the same records
  (shares, average price, purchase date) in the same order as before: the list of the
  positions in other symbols is unchanged.
\<close>

theorem other_positions_unchanged:
  "filter (\<lambda>q. symbol q \<noteq> S) (stocks (portfolio (snd (buy_stock e S n pr t))))
     = filter (\<lambda>q. symbol q \<noteq> S) (stocks (portfolio t))
   \<and> filter (\<lambda>q. symbol q \<noteq> S) (stocks (portfolio (snd (sell_stock e S n pr t))))
     = filter (\<lambda>q. symbol q \<noteq> S) (stocks (portfolio t))"
  by (auto simp: buy_stock_def sell_stock_def Let_def save_portfolio_def add_transaction_def
        others_update others_pop find_stock_Some split: option.splits)

subsection \<open>The scenario of the specification\<close>

text \<open>
  With 1000 in cash: buying 2 AAPL at 100 leaves 800 and a position of 2 shares at 100;
  buying 2 more at 200 leaves 400 and 4 shares at 150; selling the 4 at 150 brings the
  cash back to 1000 and removes the position. Withdrawing 1500 from 1000 is rejected.
\<close>

lemma scenario:
  "portfolio (run [(example_env, Deposit 1000),
                   (example_env, Buy ''AAPL'' 2 (Some 100)),
                   (example_env, Buy ''AAPL'' 2 (Some 200))] (init Map.empty))
     = \<lparr>stocks = [\<lparr>symbol = ''AAPL'', shares = 4, avg_price = 150,
                   purchase_date = ''2024-03-01''\<rparr>],
        transactions = [CashDeposit 1000 ''2024-03-01 10:00:00'',
                        BuyTx ''AAPL'' 2 100 200 ''2024-03-01 10:00:00'',
                        BuyTx ''AAPL'' 2 200 600 ''2024-03-01 10:00:00''],
        cash = 400\<rparr>"
  "cash (portfolio (run [(example_env, Deposit 1000),
                   (example_env, Buy ''AAPL'' 2 (Some 100)),
                   (example_env, Buy ''AAPL'' 2 (Some 200)),
                   (example_env, Sell ''AAPL'' 4 (Some 150))] (init Map.empty))) = 1000"
  "stocks (portfolio (run [(example_env, Deposit 1000),
                   (example_env, Buy ''AAPL'' 2 (Some 100)),
                   (example_env, Buy ''AAPL'' 2 (Some 200)),
                   (example_env, Sell ''AAPL'' 4 (Some 150))] (init Map.empty))) = []"
  "withdraw_cash example_env 1500 (run [(example_env, Deposit 1000)] (init Map.empty))
     = (Rejected InsufficientFunds, run [(example_env, Deposit 1000)] (init Map.empty))"
  by (simp_all add: init_def load_portfolio_def empty_portfolio_def example_env_def
        add_cash_def withdraw_cash_def buy_stock_def sell_stock_def resolve_price_def Let_def
        save_portfolio_def add_transaction_def pop_def)

end
